theory Spec2Isabelle
  imports Main "HOL-Library.AList" "HOL-Library.Multiset" "HOL-Library.Word"
begin

section \<open>Data model of create-light-system-program-sdk.ts\<close>

text \<open>
  An \<open>Address\<close> is a branded string in the source; equality is string equality.
  \<open>AccountRole\<close> is the four-valued enum of the client library and an
  \<open>AccountMeta\<close> is the object \<open>{ address, role }\<close>.
\<close>

type_synonym Address = string

datatype AccountRole = READONLY | WRITABLE | READONLY_SIGNER | WRITABLE_SIGNER

record AccountMeta =
  address :: Address
  role :: AccountRole

text \<open>
  \<open>PackedMeta\<close> is the tuple \<open>[index, meta]\<close>. Indices are JavaScript numbers that
  only ever hold the values \<open>0, 1, 2, ...\<close> produced by \<open>nextIndex += 1\<close>; they are
  modelled as natural numbers.
\<close>

type_synonym PackedMeta = "nat \<times> AccountMeta"

text \<open>
  A JavaScript \<open>Map\<close> iterates in insertion order, and \<open>toAccountMetas\<close> reads it
  through \<open>values()\<close>, so the map is an association list in insertion order:
  \<open>get\<close> is a lookup of the first binding, \<open>set\<close> overwrites a present key in place
  and appends an absent one, \<open>values()\<close> lists the values in order.
\<close>

type_synonym JsMap = "(Address \<times> PackedMeta) list"

definition Map_get :: "JsMap \<Rightarrow> Address \<Rightarrow> PackedMeta option" where
  "Map_get m k = map_of m k"

definition Map_set :: "JsMap \<Rightarrow> Address \<Rightarrow> PackedMeta \<Rightarrow> JsMap" where
  "Map_set m k v = AList.update k v m"

definition Map_values :: "JsMap \<Rightarrow> PackedMeta list" where
  "Map_values m = map snd m"

definition Map_size :: "JsMap \<Rightarrow> nat" where
  "Map_size m = length m"

text \<open>The private fields of class \<open>PackedAccounts\<close>.\<close>

record PackedAccounts =
  map_tbl :: JsMap
  nextIndex :: nat
  preAccounts :: "AccountMeta list"
  systemAccounts :: "AccountMeta list"

text \<open>The field initialisers: what \<open>new PackedAccounts()\<close> holds.\<close>

definition PackedAccounts_new :: PackedAccounts where
  "PackedAccounts_new =
     \<lparr>map_tbl = [], nextIndex = 0, preAccounts = [], systemAccounts = []\<rparr>"

section \<open>Insertion into the index map\<close>

text \<open>
  \<open>insertOrGetConfig\<close>: a method that mutates \<open>this\<close> becomes a function from the
  state to the returned number and the new state. \<open>existing\<close> is a tuple when it is
  defined, hence truthy, so the test \<open>if (existing)\<close> is the test for a present key.
\<close>

definition role_of :: "bool \<Rightarrow> bool \<Rightarrow> AccountRole" where
  "role_of isSigner isWritable =
     (if isSigner
      then (if isWritable then WRITABLE_SIGNER else READONLY_SIGNER)
      else (if isWritable then WRITABLE else READONLY))"

definition insertOrGetConfig ::
  "PackedAccounts \<Rightarrow> Address \<Rightarrow> bool \<Rightarrow> bool \<Rightarrow> nat \<times> PackedAccounts" where
  "insertOrGetConfig this a isSigner isWritable =
     (case Map_get (map_tbl this) a of
        Some existing \<Rightarrow> (fst existing, this)
      | None \<Rightarrow>
          (let index = nextIndex this;
               this1 = this\<lparr>nextIndex := nextIndex this + 1\<rparr>;
               r = role_of isSigner isWritable;
               this2 = this1\<lparr>map_tbl :=
                         Map_set (map_tbl this1) a (index, \<lparr>address = a, role = r\<rparr>)\<rparr>
           in (index, this2)))"

definition insertOrGet :: "PackedAccounts \<Rightarrow> Address \<Rightarrow> nat \<times> PackedAccounts" where
  "insertOrGet this a = insertOrGetConfig this a False True"

definition insertOrGetReadOnly :: "PackedAccounts \<Rightarrow> Address \<Rightarrow> nat \<times> PackedAccounts" where
  "insertOrGetReadOnly this a = insertOrGetConfig this a False False"

section \<open>Assembling the final account list\<close>

record AccountMetasResult =
  packedStart :: nat
  remainingAccounts :: "AccountMeta list"
  systemStart :: nat

text \<open>
  \<open>toAccountMetas\<close>. The spread \<open>[...this.map.values()]\<close> copies the values into a
  new array, \<open>sort\<close> (stable, with the comparator \<open>a[0] - b[0]\<close>) sorts that copy,
  and the returned arrays are new ones: the method is modelled as returning its
  result together with the state it leaves behind.
\<close>

definition toAccountMetas :: "PackedAccounts \<Rightarrow> AccountMetasResult \<times> PackedAccounts" where
  "toAccountMetas this =
     (let packed = map snd (sort_key fst (Map_values (map_tbl this)));
          systemStart' = length (preAccounts this);
          packedStart' = systemStart' + length (systemAccounts this)
      in (\<lparr>packedStart = packedStart',
           remainingAccounts = preAccounts this @ systemAccounts this @ packed,
           systemStart = systemStart'\<rparr>, this))"

section \<open>The protocol's system accounts\<close>

definition DEFAULT_REGISTERED_PROGRAM_PDA_ADDRESS :: Address where
  "DEFAULT_REGISTERED_PROGRAM_PDA_ADDRESS = ''35hkDgaAKwMCaxRz2ocSZ6NaUrtKkyNqU6c4RV3tYJRh''"

definition DEFAULT_NOOP_PROGRAM_ADDRESS :: Address where
  "DEFAULT_NOOP_PROGRAM_ADDRESS = ''noopb9bkMVfRPU8AsbpTUg8AQkHtKwMYZiFUjNRtMmV''"

definition DEFAULT_ACCOUNT_COMPRESSION_PROGRAM_ADDRESS :: Address where
  "DEFAULT_ACCOUNT_COMPRESSION_PROGRAM_ADDRESS = ''compr6CUsB5m2jS4Y3831ztGSTnDpnKJTKS95d64XVq''"

definition DEFAULT_SYSTEM_PROGRAM_ADDRESS :: Address where
  "DEFAULT_SYSTEM_PROGRAM_ADDRESS = ''11111111111111111111111111111111''"

definition CPI_AUTHORITY_SEED :: string where
  "CPI_AUTHORITY_SEED = ''cpi_authority''"

text \<open>A thrown \<open>Error\<close> (or a rejected promise) with its message.\<close>

datatype error = Error string

text \<open>
  \<open>getProgramDerivedAddress\<close> belongs to the client library, not to this repository:
  it is a parameter of the model. Given a program address and seeds it resolves to the
  pair \<open>[address, bump]\<close> or rejects.
\<close>

type_synonym ProgramDerivedAddressFn = "Address \<Rightarrow> string list \<Rightarrow> error + (Address \<times> nat)"

definition deriveAccountCompressionAuthority ::
  "ProgramDerivedAddressFn \<Rightarrow> Address \<Rightarrow> error + Address" where
  "deriveAccountCompressionAuthority getProgramDerivedAddress programAddress =
     (case getProgramDerivedAddress programAddress [CPI_AUTHORITY_SEED] of
        Inl e \<Rightarrow> Inl e
      | Inr pda \<Rightarrow> Inr (fst pda))"

record SystemAccountMetaConfig =
  cpiContext :: "Address option"
  selfProgram :: Address
  solCompressionRecipient :: "Address option"
  solPoolPda :: "Address option"

definition SystemAccountMetaConfig_new :: "Address \<Rightarrow> SystemAccountMetaConfig" where
  "SystemAccountMetaConfig_new selfProgram' =
     \<lparr>cpiContext = None, selfProgram = selfProgram',
      solCompressionRecipient = None, solPoolPda = None\<rparr>"

definition newWithCpiContext :: "Address \<Rightarrow> Address \<Rightarrow> SystemAccountMetaConfig" where
  "newWithCpiContext selfProgram' cpiContext' =
     \<lparr>cpiContext = Some cpiContext', selfProgram = selfProgram',
      solCompressionRecipient = None, solPoolPda = None\<rparr>"

text \<open>The second, destructured argument of \<open>getLightSystemAccountMetasV2\<close>.\<close>

record LightSystemConfig =
  accountCompressionAuthority :: "Address option"
  accountCompressionProgram :: "Address option"
  lightSystemProgram :: Address
  registeredProgramPda :: "Address option"

text \<open>
  \<open>if (config.solPoolPda) metas.push(...)\<close> tests truthiness: an absent field
  (\<open>undefined\<close>) is falsy, and so is the empty string. Every other string is truthy.
\<close>

definition push_if_truthy :: "Address option \<Rightarrow> AccountMeta list \<Rightarrow> AccountMeta list" where
  "push_if_truthy field metas =
     (case field of
        None \<Rightarrow> metas
      | Some a \<Rightarrow> if a = [] then metas else metas @ [\<lparr>address = a, role = WRITABLE\<rparr>])"

text \<open>
  \<open>getLightSystemAccountMetasV2\<close>. A default parameter (\<open>= DEFAULT_...\<close>) and the
  operator \<open>??\<close> both replace exactly an absent value. The two derivations are awaited
  in the order of the source; a rejection of either leaves the function at once.
\<close>

definition getLightSystemAccountMetasV2 ::
  "ProgramDerivedAddressFn \<Rightarrow> SystemAccountMetaConfig \<Rightarrow> LightSystemConfig
     \<Rightarrow> error + AccountMeta list" where
  "getLightSystemAccountMetasV2 getProgramDerivedAddress config opts =
     (let accountCompressionProgram' =
            (case accountCompressionProgram opts of
               None \<Rightarrow> DEFAULT_ACCOUNT_COMPRESSION_PROGRAM_ADDRESS | Some a \<Rightarrow> a);
          registeredProgramPda' =
            (case registeredProgramPda opts of
               None \<Rightarrow> DEFAULT_REGISTERED_PROGRAM_PDA_ADDRESS | Some a \<Rightarrow> a)
      in case getProgramDerivedAddress (selfProgram config) [CPI_AUTHORITY_SEED] of
           Inl e \<Rightarrow> Inl e
         | Inr pda \<Rightarrow>
             (let cpiSigner = fst pda in
              case (case accountCompressionAuthority opts of
                      Some a \<Rightarrow> Inr a
                    | None \<Rightarrow> deriveAccountCompressionAuthority getProgramDerivedAddress
                                (lightSystemProgram opts)) of
                Inl e \<Rightarrow> Inl e
              | Inr resolvedAccountCompressionAuthority \<Rightarrow>
                  (let metas0 =
                         [\<lparr>address = lightSystemProgram opts, role = READONLY\<rparr>,
                          \<lparr>address = cpiSigner, role = READONLY\<rparr>,
                          \<lparr>address = registeredProgramPda', role = READONLY\<rparr>,
                          \<lparr>address = resolvedAccountCompressionAuthority, role = READONLY\<rparr>,
                          \<lparr>address = accountCompressionProgram', role = READONLY\<rparr>,
                          \<lparr>address = DEFAULT_SYSTEM_PROGRAM_ADDRESS, role = READONLY\<rparr>];
                       metas1 = push_if_truthy (solPoolPda config) metas0;
                       metas2 = push_if_truthy (solCompressionRecipient config) metas1;
                       metas3 = push_if_truthy (cpiContext config) metas2
                   in Inr metas3)))"

section \<open>The other methods of PackedAccounts and sequences of calls\<close>

definition addPreAccountsMeta :: "PackedAccounts \<Rightarrow> AccountMeta \<Rightarrow> PackedAccounts" where
  "addPreAccountsMeta this accountMeta =
     this\<lparr>preAccounts := preAccounts this @ [accountMeta]\<rparr>"

definition addPreAccountsSigner :: "PackedAccounts \<Rightarrow> Address \<Rightarrow> PackedAccounts" where
  "addPreAccountsSigner this a =
     this\<lparr>preAccounts := preAccounts this @ [\<lparr>address = a, role = READONLY_SIGNER\<rparr>]\<rparr>"

definition addPreAccountsSignerMut :: "PackedAccounts \<Rightarrow> Address \<Rightarrow> PackedAccounts" where
  "addPreAccountsSignerMut this a =
     this\<lparr>preAccounts := preAccounts this @ [\<lparr>address = a, role = WRITABLE_SIGNER\<rparr>]\<rparr>"

text \<open>
  \<open>addSystemAccountsV2\<close> pushes only after the awaited resolver has returned: when the
  resolver rejects, the error propagates and the object is as it was.
\<close>

definition addSystemAccountsV2 ::
  "ProgramDerivedAddressFn \<Rightarrow> PackedAccounts \<Rightarrow> SystemAccountMetaConfig \<Rightarrow> LightSystemConfig
     \<Rightarrow> error + PackedAccounts" where
  "addSystemAccountsV2 getProgramDerivedAddress this config lightSystemConfig =
     (case getLightSystemAccountMetasV2 getProgramDerivedAddress config lightSystemConfig of
        Inl e \<Rightarrow> Inl e
      | Inr metas \<Rightarrow> Inr (this\<lparr>systemAccounts := systemAccounts this @ metas\<rparr>))"

definition newWithSystemAccountsV2 ::
  "ProgramDerivedAddressFn \<Rightarrow> SystemAccountMetaConfig \<Rightarrow> LightSystemConfig
     \<Rightarrow> error + PackedAccounts" where
  "newWithSystemAccountsV2 getProgramDerivedAddress config lightSystemConfig =
     addSystemAccountsV2 getProgramDerivedAddress PackedAccounts_new config lightSystemConfig"

text \<open>The three public entry points that insert into the index map, as data.\<close>

datatype insert_call =
    InsertOrGet Address
  | InsertOrGetReadOnly Address
  | InsertOrGetConfig Address bool bool

fun insert_address :: "insert_call \<Rightarrow> Address" where
  "insert_address (InsertOrGet a) = a"
| "insert_address (InsertOrGetReadOnly a) = a"
| "insert_address (InsertOrGetConfig a isSigner isWritable) = a"

fun do_insert :: "PackedAccounts \<Rightarrow> insert_call \<Rightarrow> nat \<times> PackedAccounts" where
  "do_insert this (InsertOrGet a) = insertOrGet this a"
| "do_insert this (InsertOrGetReadOnly a) = insertOrGetReadOnly this a"
| "do_insert this (InsertOrGetConfig a isSigner isWritable) =
     insertOrGetConfig this a isSigner isWritable"

text \<open>A caller making the insert calls one after the other and collecting what they return.\<close>

fun insert_all :: "PackedAccounts \<Rightarrow> insert_call list \<Rightarrow> nat list \<times> PackedAccounts" where
  "insert_all this [] = ([], this)"
| "insert_all this (c # cs) =
     (let r = do_insert this c;
          rs = insert_all (snd r) cs
      in (fst r # fst rs, snd rs))"

text \<open>
  Every public method of the class, as data, and the state a call leaves behind
  (whether it returned or threw). The states reachable by a caller are those that a
  sequence of calls produces from \<open>new PackedAccounts()\<close>.
\<close>

datatype method_call =
    AddPreAccountsMeta AccountMeta
  | AddPreAccountsSigner Address
  | AddPreAccountsSignerMut Address
  | AddSystemAccountsV2 SystemAccountMetaConfig LightSystemConfig
  | Insert insert_call
  | ToAccountMetas

fun call :: "ProgramDerivedAddressFn \<Rightarrow> PackedAccounts \<Rightarrow> method_call \<Rightarrow> PackedAccounts" where
  "call pdaFn this (AddPreAccountsMeta m) = addPreAccountsMeta this m"
| "call pdaFn this (AddPreAccountsSigner a) = addPreAccountsSigner this a"
| "call pdaFn this (AddPreAccountsSignerMut a) = addPreAccountsSignerMut this a"
| "call pdaFn this (AddSystemAccountsV2 config lightSystemConfig) =
     (case addSystemAccountsV2 pdaFn this config lightSystemConfig of
        Inl e \<Rightarrow> this
      | Inr this' \<Rightarrow> this')"
| "call pdaFn this (Insert c) = snd (do_insert this c)"
| "call pdaFn this ToAccountMetas = snd (toAccountMetas this)"

fun calls :: "ProgramDerivedAddressFn \<Rightarrow> PackedAccounts \<Rightarrow> method_call list \<Rightarrow> PackedAccounts" where
  "calls pdaFn this [] = this"
| "calls pdaFn this (c # cs) = calls pdaFn (call pdaFn this c) cs"

section \<open>Building and signing a transaction\<close>

record BlockhashLifetimeConstraint =
  blockhash :: string
  lastValidBlockHeight :: int

text \<open>
  What \<open>rpc.getLatestBlockhash().send()\<close> resolves to: the constraint itself, or an
  object holding it under \<open>value\<close>.
\<close>

datatype LatestBlockhashResponse =
    Bare BlockhashLifetimeConstraint
  | WithValue BlockhashLifetimeConstraint

definition normalizeBlockhashLifetimeConstraint ::
  "LatestBlockhashResponse \<Rightarrow> BlockhashLifetimeConstraint" where
  "normalizeBlockhashLifetimeConstraint response =
     (case response of WithValue v \<Rightarrow> v | Bare c \<Rightarrow> c)"

text \<open>
  The \<open>rpc\<close> collaborator is used for one request only; it is modelled by the outcome
  of that request (a rejection or a response).
\<close>

type_synonym GetLatestBlockhashApi = "error + LatestBlockhashResponse"

record Instruction =
  accounts :: "AccountMeta list option"
  data :: "8 word list option"
  programAddress :: Address

datatype TransactionVersion = V0 | Legacy

record 'signer BuildAndSignTransactionInput =
  feePayer :: 'signer
  instructions :: "Instruction list"
  latestBlockhash :: "BlockhashLifetimeConstraint option"
  rpc :: "GetLatestBlockhashApi option"
  version :: "TransactionVersion option"

text \<open>
  The transaction message and its four builders belong to the client library. Each
  builder returns a new message with one field set, as the library documents them.
\<close>

record 'signer TransactionMessage =
  tm_version :: TransactionVersion
  tm_feePayer :: "'signer option"
  tm_lifetimeConstraint :: "BlockhashLifetimeConstraint option"
  tm_instructions :: "Instruction list"

definition createTransactionMessage :: "TransactionVersion \<Rightarrow> 'signer TransactionMessage" where
  "createTransactionMessage v =
     \<lparr>tm_version = v, tm_feePayer = None, tm_lifetimeConstraint = None, tm_instructions = []\<rparr>"

definition setTransactionMessageFeePayerSigner ::
  "'signer \<Rightarrow> 'signer TransactionMessage \<Rightarrow> 'signer TransactionMessage" where
  "setTransactionMessageFeePayerSigner signer msg = msg\<lparr>tm_feePayer := Some signer\<rparr>"

definition setTransactionMessageLifetimeUsingBlockhash ::
  "BlockhashLifetimeConstraint \<Rightarrow> 'signer TransactionMessage \<Rightarrow> 'signer TransactionMessage" where
  "setTransactionMessageLifetimeUsingBlockhash c msg = msg\<lparr>tm_lifetimeConstraint := Some c\<rparr>"

definition appendTransactionMessageInstructions ::
  "Instruction list \<Rightarrow> 'signer TransactionMessage \<Rightarrow> 'signer TransactionMessage" where
  "appendTransactionMessageInstructions is msg =
     msg\<lparr>tm_instructions := tm_instructions msg @ is\<rparr>"

text \<open>
  The effects of \<open>buildAndSignTransaction\<close> on its collaborators, in the order they
  happen: the request to the rpc, the creation of a message, the signing of a message.
\<close>

datatype 'signer effect =
    RpcGetLatestBlockhash
  | CreateMessage TransactionVersion
  | SignMessage "'signer TransactionMessage"

text \<open>
  \<open>buildAndSignTransaction\<close> returns the effects it had and either the error it threw
  or the signed transaction. \<open>signTransactionMessageWithSigners\<close> is the library's and
  a parameter here. \<open>latestBlockhash ?? (rpc ? ... : undefined)\<close> asks the rpc only
  when \<open>latestBlockhash\<close> is absent and \<open>rpc\<close> is present. A constraint is an object,
  hence truthy, so \<open>!resolvedLatestBlockhash\<close> holds exactly for \<open>undefined\<close>.
\<close>

definition buildAndSignTransaction ::
  "('signer TransactionMessage \<Rightarrow> error + 'tx) \<Rightarrow> 'signer BuildAndSignTransactionInput
     \<Rightarrow> 'signer effect list \<times> (error + 'tx)" where
  "buildAndSignTransaction signTransactionMessageWithSigners input =
     (let version' = (case version input of None \<Rightarrow> V0 | Some v \<Rightarrow> v);
          resolved =
            (case latestBlockhash input of
               Some c \<Rightarrow> ([], Inr (Some c))
             | None \<Rightarrow>
                 (case rpc input of
                    None \<Rightarrow> ([], Inr None)
                  | Some sent \<Rightarrow>
                      ([RpcGetLatestBlockhash],
                       case sent of
                         Inl e \<Rightarrow> Inl e
                       | Inr response \<Rightarrow>
                           Inr (Some (normalizeBlockhashLifetimeConstraint response)))))
      in case snd resolved of
           Inl e \<Rightarrow> (fst resolved, Inl e)
         | Inr None \<Rightarrow>
             (fst resolved,
              Inl (Error ''latestBlockhash is required when rpc is not provided.''))
         | Inr (Some resolvedLatestBlockhash) \<Rightarrow>
             (let messageWithInstructions =
                    appendTransactionMessageInstructions (instructions input)
                      (setTransactionMessageLifetimeUsingBlockhash resolvedLatestBlockhash
                         (setTransactionMessageFeePayerSigner (feePayer input)
                            (createTransactionMessage version')))
              in (fst resolved @ [CreateMessage version', SignMessage messageWithInstructions],
                  signTransactionMessageWithSigners messageWithInstructions)))"

section \<open>An invariant of the index map\<close>

text \<open>
  What every reachable index map satisfies: the entries, in insertion order, carry the
  indices \<open>0, 1, 2, ...\<close>, \<open>nextIndex\<close> is the number of entries, and each entry
  records the address it is stored under.
\<close>

definition index_inv :: "PackedAccounts \<Rightarrow> bool" where
  "index_inv this \<longleftrightarrow>
     map (\<lambda>e. fst (snd e)) (map_tbl this) = [0 ..< length (map_tbl this)] \<and>
     nextIndex this = length (map_tbl this) \<and>
     (\<forall>e \<in> set (map_tbl this). address (snd (snd e)) = fst e)"

section \<open>Lemmas about lookups and insertion\<close>

lemma update_fresh: "k \<notin> fst ` set m \<Longrightarrow> AList.update k v m = m @ [(k, v)]"
  by (induction m) auto

lemma Map_get_None_iff: "Map_get m k = None \<longleftrightarrow> k \<notin> fst ` set m"
  by (simp add: Map_get_def map_of_eq_None_iff)

lemma Map_get_append_other:
  "Map_get m a = Some e \<Longrightarrow> Map_get (m @ [(b, v)]) a = Some e"
  by (simp add: Map_get_def map_add_def split: option.splits)

lemma insertOrGetConfig_present:
  "Map_get (map_tbl this) a = Some e \<Longrightarrow> insertOrGetConfig this a sg w = (fst e, this)"
  by (simp add: insertOrGetConfig_def)

lemma insertOrGetConfig_absent:
  "Map_get (map_tbl this) a = None \<Longrightarrow>
   insertOrGetConfig this a sg w =
     (nextIndex this,
      this\<lparr>nextIndex := nextIndex this + 1,
           map_tbl := map_tbl this
             @ [(a, (nextIndex this, \<lparr>address = a, role = role_of sg w\<rparr>))]\<rparr>)"
proof -
  assume n: "Map_get (map_tbl this) a = None"
  then have "a \<notin> fst ` set (map_tbl this)" by (simp add: Map_get_None_iff)
  then have "AList.update a v (map_tbl this) = map_tbl this @ [(a, v)]" for v
    by (rule update_fresh)
  with n show ?thesis by (simp add: insertOrGetConfig_def Let_def Map_set_def)
qed

lemma insertOrGetConfig_keeps:
  assumes "Map_get (map_tbl this) a = Some e"
  shows "Map_get (map_tbl (snd (insertOrGetConfig this b sg w))) a = Some e"
proof (cases "Map_get (map_tbl this) b")
  case None
  then show ?thesis using assms
    by (simp add: insertOrGetConfig_absent Map_get_append_other)
next
  case (Some e')
  then show ?thesis using assms by (simp add: insertOrGetConfig_present)
qed

lemma do_insert_keeps:
  "Map_get (map_tbl this) a = Some e \<Longrightarrow>
   Map_get (map_tbl (snd (do_insert this c))) a = Some e"
  by (cases c) (simp_all add: insertOrGet_def insertOrGetReadOnly_def insertOrGetConfig_keeps)

text \<open>Only the insert calls touch the index map and the counter.\<close>

lemma call_map_tbl_other:
  "\<forall>i. c \<noteq> Insert i \<Longrightarrow>
   map_tbl (call pdaFn this c) = map_tbl this \<and>
   nextIndex (call pdaFn this c) = nextIndex this"
  by (cases c)
     (auto simp: addPreAccountsMeta_def addPreAccountsSigner_def addPreAccountsSignerMut_def
        addSystemAccountsV2_def toAccountMetas_def Let_def split: sum.splits)

lemma call_keeps:
  "Map_get (map_tbl this) a = Some e \<Longrightarrow> Map_get (map_tbl (call pdaFn this c)) a = Some e"
proof (cases "\<exists>i. c = Insert i")
  case True
  then show "Map_get (map_tbl this) a = Some e \<Longrightarrow> ?thesis"
    by (auto simp: do_insert_keeps)
next
  case False
  then show "Map_get (map_tbl this) a = Some e \<Longrightarrow> ?thesis"
    by (simp add: call_map_tbl_other)
qed

lemma calls_keeps:
  "Map_get (map_tbl this) a = Some e \<Longrightarrow> Map_get (map_tbl (calls pdaFn this cs)) a = Some e"
  by (induction cs arbitrary: this) (simp_all add: call_keeps)

lemma do_insert_absent:
  assumes "insert_address c \<notin> fst ` set (map_tbl this)"
  shows "fst (do_insert this c) = nextIndex this \<and>
         nextIndex (snd (do_insert this c)) = nextIndex this + 1 \<and>
         fst ` set (map_tbl (snd (do_insert this c)))
           = insert (insert_address c) (fst ` set (map_tbl this))"
proof -
  have "Map_get (map_tbl this) (insert_address c) = None"
    using assms by (simp add: Map_get_None_iff)
  then show ?thesis
    by (cases c) (simp_all add: insertOrGet_def insertOrGetReadOnly_def insertOrGetConfig_absent)
qed

text \<open>
  Inserting addresses that are pairwise distinct and not yet in the map hands out the
  next indices one by one, whatever the counter is at the start.
\<close>

lemma insert_all_fresh:
  "distinct (map insert_address cs) \<Longrightarrow>
   set (map insert_address cs) \<inter> fst ` set (map_tbl this) = {} \<Longrightarrow>
   fst (insert_all this cs) = [nextIndex this ..< nextIndex this + length cs]"
proof (induction cs arbitrary: this)
  case Nil
  then show ?case by simp
next
  case (Cons c cs)
  have fresh: "insert_address c \<notin> fst ` set (map_tbl this)"
    using Cons.prems(2) by auto
  note d = do_insert_absent [OF fresh]
  have "set (map insert_address cs) \<inter> fst ` set (map_tbl (snd (do_insert this c))) = {}"
    using Cons.prems d by auto
  with Cons.IH [of "snd (do_insert this c)"] Cons.prems(1)
  have "fst (insert_all (snd (do_insert this c)) cs)
          = [nextIndex this + 1 ..< nextIndex this + 1 + length cs]"
    using d by simp
  then show ?case using d by (simp add: Let_def upt_rec)
qed

section \<open>The invariant holds in every reachable state\<close>

lemma index_inv_new: "index_inv PackedAccounts_new"
  by (simp add: index_inv_def PackedAccounts_new_def)

lemma index_inv_insertOrGetConfig:
  assumes "index_inv this"
  shows "index_inv (snd (insertOrGetConfig this a sg w))"
proof (cases "Map_get (map_tbl this) a")
  case None
  then show ?thesis using assms
    by (simp add: insertOrGetConfig_absent index_inv_def)
next
  case (Some e)
  then show ?thesis using assms by (simp add: insertOrGetConfig_present)
qed

lemma index_inv_do_insert: "index_inv this \<Longrightarrow> index_inv (snd (do_insert this c))"
  by (cases c) (simp_all add: insertOrGet_def insertOrGetReadOnly_def index_inv_insertOrGetConfig)

lemma index_inv_call: "index_inv this \<Longrightarrow> index_inv (call pdaFn this c)"
proof (cases "\<exists>i. c = Insert i")
  case True
  then show "index_inv this \<Longrightarrow> ?thesis" by (auto simp: index_inv_do_insert)
next
  case False
  then show "index_inv this \<Longrightarrow> ?thesis" by (simp add: call_map_tbl_other index_inv_def)
qed

lemma index_inv_calls: "index_inv this \<Longrightarrow> index_inv (calls pdaFn this cs)"
  by (induction cs arbitrary: this) (simp_all add: index_inv_call)

lemma index_inv_reachable: "index_inv (calls pdaFn PackedAccounts_new cs)"
  by (rule index_inv_calls [OF index_inv_new])

text \<open>Under the invariant the values are already in index order: the sort changes nothing.\<close>

lemma packed_of_index_inv:
  assumes "index_inv this"
  shows "sort_key fst (Map_values (map_tbl this)) = Map_values (map_tbl this)"
proof -
  have "map fst (Map_values (map_tbl this)) = [0 ..< length (map_tbl this)]"
    using assms by (simp add: index_inv_def Map_values_def comp_def)
  then have "sorted (map fst (Map_values (map_tbl this)))" by simp
  then show ?thesis by (rule sort_key_id_if_sorted)
qed

lemma entry_position:
  assumes "index_inv this" and "Map_get (map_tbl this) a = Some (k, meta)"
  shows "k < length (map_tbl this) \<and> map_tbl this ! k = (a, (k, meta))"
proof -
  have "(a, (k, meta)) \<in> set (map_tbl this)"
    using assms(2) by (simp add: Map_get_def map_of_SomeD)
  then obtain i where i: "i < length (map_tbl this)" "map_tbl this ! i = (a, (k, meta))"
    by (auto simp: in_set_conv_nth)
  have "map (\<lambda>e. fst (snd e)) (map_tbl this) ! i = [0 ..< length (map_tbl this)] ! i"
    using assms(1) by (simp add: index_inv_def)
  with i have "k = i" by simp
  with i show ?thesis by simp
qed

lemma push_if_truthy_nonempty:
  "field \<noteq> Some [] \<Longrightarrow>
   push_if_truthy field metas
     = metas @ (case field of None \<Rightarrow> [] | Some a \<Rightarrow> [\<lparr>address = a, role = WRITABLE\<rparr>])"
  by (simp add: push_if_truthy_def split: option.splits)

section \<open>The resolver's fixed layout\<close>

text \<open>
  Claim C1. Whenever the two derivations succeed, \<open>getLightSystemAccountMetasV2\<close>
  returns six read-only metas in the order: the target program, the authority derived
  from \<open>config.selfProgram\<close> with the seed \<open>CPI_AUTHORITY_SEED\<close>, the registered
  program PDA (the default constant if absent), the compression authority (the override
  if given, else derived from the target program), the account compression program (the
  default constant if absent), the system program constant. After these six come
  \<open>solPoolPda\<close>, \<open>solCompressionRecipient\<close> and \<open>cpiContext\<close>, in that order, each
  writable, each present exactly when configured; with none of them configured the list
  has exactly six entries. A configured address is a non-empty string, as every
  \<open>Address\<close> is.
\<close>

theorem getLightSystemAccountMetasV2_layout:
  assumes signer: "getProgramDerivedAddress (selfProgram config) [CPI_AUTHORITY_SEED]
                     = Inr (cpiSigner, bump)"
      and authority:
        "(case accountCompressionAuthority opts of
            Some a \<Rightarrow> Inr a
          | None \<Rightarrow> deriveAccountCompressionAuthority getProgramDerivedAddress
                      (lightSystemProgram opts)) = Inr compressionAuthority"
      and nonempty: "solPoolPda config \<noteq> Some []" "solCompressionRecipient config \<noteq> Some []"
        "cpiContext config \<noteq> Some []"
  shows "getLightSystemAccountMetasV2 getProgramDerivedAddress config opts =
           Inr ([\<lparr>address = lightSystemProgram opts, role = READONLY\<rparr>,
                 \<lparr>address = cpiSigner, role = READONLY\<rparr>,
                 \<lparr>address = (case registeredProgramPda opts of
                               None \<Rightarrow> DEFAULT_REGISTERED_PROGRAM_PDA_ADDRESS | Some a \<Rightarrow> a),
                  role = READONLY\<rparr>,
                 \<lparr>address = compressionAuthority, role = READONLY\<rparr>,
                 \<lparr>address = (case accountCompressionProgram opts of
                               None \<Rightarrow> DEFAULT_ACCOUNT_COMPRESSION_PROGRAM_ADDRESS | Some a \<Rightarrow> a),
                  role = READONLY\<rparr>,
                 \<lparr>address = DEFAULT_SYSTEM_PROGRAM_ADDRESS, role = READONLY\<rparr>]
                @ (case solPoolPda config of
                     None \<Rightarrow> [] | Some a \<Rightarrow> [\<lparr>address = a, role = WRITABLE\<rparr>])
                @ (case solCompressionRecipient config of
                     None \<Rightarrow> [] | Some a \<Rightarrow> [\<lparr>address = a, role = WRITABLE\<rparr>])
                @ (case cpiContext config of
                     None \<Rightarrow> [] | Some a \<Rightarrow> [\<lparr>address = a, role = WRITABLE\<rparr>]))"
  using signer authority
  by (simp add: getLightSystemAccountMetasV2_def Let_def
        push_if_truthy_nonempty [OF nonempty(1)] push_if_truthy_nonempty [OF nonempty(2)]
        push_if_truthy_nonempty [OF nonempty(3)])

theorem getLightSystemAccountMetasV2_layout_witness:
  "getLightSystemAccountMetasV2 (\<lambda>p seeds. Inr (''pda-'' @ p, 255))
     (SystemAccountMetaConfig_new ''A'')
     \<lparr>accountCompressionAuthority = None, accountCompressionProgram = None,
      lightSystemProgram = ''B'', registeredProgramPda = None\<rparr>
   = Inr [\<lparr>address = ''B'', role = READONLY\<rparr>,
          \<lparr>address = ''pda-A'', role = READONLY\<rparr>,
          \<lparr>address = DEFAULT_REGISTERED_PROGRAM_PDA_ADDRESS, role = READONLY\<rparr>,
          \<lparr>address = ''pda-B'', role = READONLY\<rparr>,
          \<lparr>address = DEFAULT_ACCOUNT_COMPRESSION_PROGRAM_ADDRESS, role = READONLY\<rparr>,
          \<lparr>address = DEFAULT_SYSTEM_PROGRAM_ADDRESS, role = READONLY\<rparr>] \<and>
   getLightSystemAccountMetasV2 (\<lambda>p seeds. Inr (''pda-'' @ p, 255))
     ((SystemAccountMetaConfig_new ''A'')\<lparr>solPoolPda := Some ''C''\<rparr>)
     \<lparr>accountCompressionAuthority = Some ''D'', accountCompressionProgram = None,
      lightSystemProgram = ''B'', registeredProgramPda = None\<rparr>
   = Inr [\<lparr>address = ''B'', role = READONLY\<rparr>,
          \<lparr>address = ''pda-A'', role = READONLY\<rparr>,
          \<lparr>address = DEFAULT_REGISTERED_PROGRAM_PDA_ADDRESS, role = READONLY\<rparr>,
          \<lparr>address = ''D'', role = READONLY\<rparr>,
          \<lparr>address = DEFAULT_ACCOUNT_COMPRESSION_PROGRAM_ADDRESS, role = READONLY\<rparr>,
          \<lparr>address = DEFAULT_SYSTEM_PROGRAM_ADDRESS, role = READONLY\<rparr>,
          \<lparr>address = ''C'', role = WRITABLE\<rparr>]"
  using getLightSystemAccountMetasV2_layout
          [of "\<lambda>p seeds. Inr (''pda-'' @ p, 255)" "SystemAccountMetaConfig_new ''A''"
              "''pda-A''" 255
              "\<lparr>accountCompressionAuthority = None, accountCompressionProgram = None,
                lightSystemProgram = ''B'', registeredProgramPda = None\<rparr>" "''pda-B''"]
        getLightSystemAccountMetasV2_layout
          [of "\<lambda>p seeds. Inr (''pda-'' @ p, 255)"
              "(SystemAccountMetaConfig_new ''A'')\<lparr>solPoolPda := Some ''C''\<rparr>"
              "''pda-A''" 255
              "\<lparr>accountCompressionAuthority = Some ''D'', accountCompressionProgram = None,
                lightSystemProgram = ''B'', registeredProgramPda = None\<rparr>" "''D''"]
  by (simp add: SystemAccountMetaConfig_new_def deriveAccountCompressionAuthority_def)

section \<open>Indices handed out by insertion\<close>

text \<open>
  Claim C2. Inserting N pairwise-distinct addresses, in order, through \<open>insertOrGet\<close>,
  \<open>insertOrGetReadOnly\<close> or \<open>insertOrGetConfig\<close> into a \<open>PackedAccounts\<close> whose
  index map is fresh returns exactly the indices \<open>0, 1, ..., N-1\<close> in insertion
  order. The indices are a function of the sequence of calls, hence deterministic.
\<close>

theorem insert_all_distinct_indices:
  assumes "Map_size (map_tbl this) = 0" and "nextIndex this = 0"
      and "distinct (map insert_address cs)"
  shows "fst (insert_all this cs) = [0 ..< length cs]"
  using insert_all_fresh [of cs this] assms by (simp add: Map_size_def)

theorem insert_all_distinct_indices_witness:
  "fst (insert_all PackedAccounts_new
          [InsertOrGet ''P'', InsertOrGetReadOnly ''Q'', InsertOrGetConfig ''R'' True False])
     = [0, 1, 2]"
  using insert_all_distinct_indices
          [of PackedAccounts_new
              "[InsertOrGet ''P'', InsertOrGetReadOnly ''Q'', InsertOrGetConfig ''R'' True False]"]
  by (simp add: PackedAccounts_new_def Map_size_def upt_rec)

text \<open>
  Claim C6. For every address and every state, a second \<open>insertOrGetConfig\<close> for the
  same address, with any flags, returns the index of the first call and leaves the
  index map at the size the first call left it; the same holds for \<open>insertOrGet\<close>.
\<close>

theorem insertOrGetConfig_idempotent:
  "fst (insertOrGetConfig (snd (insertOrGetConfig this a sg w)) a sg' w')
     = fst (insertOrGetConfig this a sg w) \<and>
   Map_size (map_tbl (snd (insertOrGetConfig (snd (insertOrGetConfig this a sg w)) a sg' w')))
     = Map_size (map_tbl (snd (insertOrGetConfig this a sg w))) \<and>
   fst (insertOrGet (snd (insertOrGet this a)) a) = fst (insertOrGet this a) \<and>
   Map_size (map_tbl (snd (insertOrGet (snd (insertOrGet this a)) a)))
     = Map_size (map_tbl (snd (insertOrGet this a)))"
proof -
  have twice: "insertOrGetConfig (snd (insertOrGetConfig this a s1 w1)) a s2 w2
                 = (fst (insertOrGetConfig this a s1 w1), snd (insertOrGetConfig this a s1 w1))"
    for s1 w1 s2 w2
  proof (cases "Map_get (map_tbl this) a")
    case None
    let ?e = "(nextIndex this, \<lparr>address = a, role = role_of s1 w1\<rparr>)"
    let ?s = "this\<lparr>nextIndex := nextIndex this + 1, map_tbl := map_tbl this @ [(a, ?e)]\<rparr>"
    have first: "insertOrGetConfig this a s1 w1 = (nextIndex this, ?s)"
      using None by (rule insertOrGetConfig_absent)
    have "Map_get (map_tbl ?s) a = Some ?e"
      using None by (simp add: Map_get_def map_add_def)
    then have "insertOrGetConfig ?s a s2 w2 = (fst ?e, ?s)"
      by (rule insertOrGetConfig_present)
    with first show ?thesis by simp
  next
    case (Some e)
    then show ?thesis by (simp add: insertOrGetConfig_present)
  qed
  show ?thesis by (simp add: twice insertOrGet_def)
qed

text \<open>
  Claim C7. Once an address is in the index map, every later \<open>insertOrGetConfig\<close> for
  it, with any \<open>isSigner\<close> and \<open>isWritable\<close>, returns the recorded index and changes
  nothing; and no sequence of calls of any public method changes the recorded entry,
  neither its index nor its role: the first insertion's access mode wins.
\<close>

theorem insertOrGetConfig_first_wins:
  assumes "Map_get (map_tbl this) a = Some e"
  shows "insertOrGetConfig this a isSigner isWritable = (fst e, this) \<and>
         Map_get (map_tbl (snd (insertOrGetConfig this a isSigner isWritable))) a = Some e \<and>
         Map_get (map_tbl (calls pdaFn this cs)) a = Some e"
  using assms by (simp add: insertOrGetConfig_present calls_keeps)

theorem insertOrGetConfig_first_wins_witness:
  "Map_get (map_tbl (snd (insertOrGetReadOnly PackedAccounts_new ''A''))) ''A''
     = Some (0, \<lparr>address = ''A'', role = READONLY\<rparr>) \<and>
   insertOrGetConfig (snd (insertOrGetReadOnly PackedAccounts_new ''A'')) ''A'' True True
     = (0, snd (insertOrGetReadOnly PackedAccounts_new ''A'')) \<and>
   Map_get (map_tbl (calls (\<lambda>p seeds. Inr (p, 0))
                       (snd (insertOrGetReadOnly PackedAccounts_new ''A''))
                       [Insert (InsertOrGet ''B''), Insert (InsertOrGetConfig ''A'' True True),
                        AddPreAccountsSigner ''A''])) ''A''
     = Some (0, \<lparr>address = ''A'', role = READONLY\<rparr>)"
proof -
  have present: "Map_get (map_tbl (snd (insertOrGetReadOnly PackedAccounts_new ''A''))) ''A''
                   = Some (0, \<lparr>address = ''A'', role = READONLY\<rparr>)"
    by (simp add: insertOrGetReadOnly_def insertOrGetConfig_def PackedAccounts_new_def
          Map_get_def Map_set_def Let_def role_of_def)
  from insertOrGetConfig_first_wins [OF present, of True True "\<lambda>p seeds. Inr (p, 0)"
         "[Insert (InsertOrGet ''B''), Insert (InsertOrGetConfig ''A'' True True),
           AddPreAccountsSigner ''A'']"] present
  show ?thesis by simp
qed

section \<open>The final account list\<close>

text \<open>
  Claim C3. For every state, \<open>toAccountMetas\<close> returns as \<open>remainingAccounts\<close> the
  concatenation of \<open>preAccounts\<close>, \<open>systemAccounts\<close> and the metas of the map's
  entries sorted ascending by index: the sorted entries are ordered by index and are
  the map's entries, each as often as it occurs. In particular, with
  \<open>preAccounts = [X]\<close>, \<open>systemAccounts = [Y, Z]\<close> and two read-only insertions of
  distinct fresh addresses \<open>P\<close> then \<open>Q\<close>, the result is \<open>[X, Y, Z, P, Q]\<close> with
  \<open>systemStart = 1\<close> and \<open>packedStart = 3\<close>.
\<close>

theorem toAccountMetas_concatenation:
  "remainingAccounts (fst (toAccountMetas this))
     = preAccounts this @ systemAccounts this
         @ map snd (sort_key fst (Map_values (map_tbl this))) \<and>
   sorted (map fst (sort_key fst (Map_values (map_tbl this)))) \<and>
   mset (sort_key fst (Map_values (map_tbl this))) = mset (Map_values (map_tbl this)) \<and>
   (P \<noteq> Q \<longrightarrow>
      fst (toAccountMetas (snd (insert_all
             \<lparr>map_tbl = [], nextIndex = 0, preAccounts = [X], systemAccounts = [Y, Z]\<rparr>
             [InsertOrGetReadOnly P, InsertOrGetReadOnly Q])))
        = \<lparr>packedStart = 3,
           remainingAccounts =
             [X, Y, Z, \<lparr>address = P, role = READONLY\<rparr>, \<lparr>address = Q, role = READONLY\<rparr>],
           systemStart = 1\<rparr>)"
proof -
  have whole: "remainingAccounts (fst (toAccountMetas this))
     = preAccounts this @ systemAccounts this
         @ map snd (sort_key fst (Map_values (map_tbl this)))"
    by (simp add: toAccountMetas_def Let_def)
  have ordered: "sorted (map fst (sort_key fst (Map_values (map_tbl this))))"
    by simp
  have same: "mset (sort_key fst (Map_values (map_tbl this))) = mset (Map_values (map_tbl this))"
    by simp
  have "P \<noteq> Q \<Longrightarrow>
      fst (toAccountMetas (snd (insert_all
             \<lparr>map_tbl = [], nextIndex = 0, preAccounts = [X], systemAccounts = [Y, Z]\<rparr>
             [InsertOrGetReadOnly P, InsertOrGetReadOnly Q])))
        = \<lparr>packedStart = 3,
           remainingAccounts =
             [X, Y, Z, \<lparr>address = P, role = READONLY\<rparr>, \<lparr>address = Q, role = READONLY\<rparr>],
           systemStart = 1\<rparr>"
    by (simp add: insertOrGetReadOnly_def insertOrGetConfig_def Map_get_def Map_set_def
          Let_def role_of_def toAccountMetas_def Map_values_def)
  with whole ordered same show ?thesis by blast
qed

theorem toAccountMetas_concatenation_witness:
  "remainingAccounts (fst (toAccountMetas
      \<lparr>map_tbl = [(''b'', (1, \<lparr>address = ''b'', role = WRITABLE\<rparr>)),
                  (''a'', (0, \<lparr>address = ''a'', role = READONLY\<rparr>))],
       nextIndex = 2, preAccounts = [\<lparr>address = ''x'', role = READONLY_SIGNER\<rparr>],
       systemAccounts = []\<rparr>))
     = [\<lparr>address = ''x'', role = READONLY_SIGNER\<rparr>,
        \<lparr>address = ''a'', role = READONLY\<rparr>, \<lparr>address = ''b'', role = WRITABLE\<rparr>] \<and>
   ''P'' \<noteq> ''Q'' \<and>
   fst (toAccountMetas (snd (insert_all
          \<lparr>map_tbl = [], nextIndex = 0,
           preAccounts = [\<lparr>address = ''X'', role = WRITABLE_SIGNER\<rparr>],
           systemAccounts = [\<lparr>address = ''Y'', role = READONLY\<rparr>,
                             \<lparr>address = ''Z'', role = WRITABLE\<rparr>]\<rparr>
          [InsertOrGetReadOnly ''P'', InsertOrGetReadOnly ''Q''])))
     = \<lparr>packedStart = 3,
        remainingAccounts =
          [\<lparr>address = ''X'', role = WRITABLE_SIGNER\<rparr>, \<lparr>address = ''Y'', role = READONLY\<rparr>,
           \<lparr>address = ''Z'', role = WRITABLE\<rparr>, \<lparr>address = ''P'', role = READONLY\<rparr>,
           \<lparr>address = ''Q'', role = READONLY\<rparr>],
        systemStart = 1\<rparr>"
  using toAccountMetas_concatenation
          [of "\<lparr>map_tbl = [(''b'', (1, \<lparr>address = ''b'', role = WRITABLE\<rparr>)),
                            (''a'', (0, \<lparr>address = ''a'', role = READONLY\<rparr>))],
                 nextIndex = 2, preAccounts = [\<lparr>address = ''x'', role = READONLY_SIGNER\<rparr>],
                 systemAccounts = []\<rparr>"
              "''P''" "''Q''" "\<lparr>address = ''X'', role = WRITABLE_SIGNER\<rparr>"
              "\<lparr>address = ''Y'', role = READONLY\<rparr>" "\<lparr>address = ''Z'', role = WRITABLE\<rparr>"]
  by (simp add: Map_values_def)

text \<open>
  Claim C4. For every state of a \<open>PackedAccounts\<close>, the offsets returned by
  \<open>toAccountMetas\<close> satisfy \<open>systemStart = length preAccounts\<close> and
  \<open>packedStart - systemStart = length systemAccounts\<close>; and when the index map is
  empty, \<open>packedStart\<close> is the length of the returned \<open>remainingAccounts\<close>, that is,
  the packed segment is empty.
\<close>

theorem toAccountMetas_offsets:
  "systemStart (fst (toAccountMetas this)) = length (preAccounts this) \<and>
   packedStart (fst (toAccountMetas this)) - systemStart (fst (toAccountMetas this))
     = length (systemAccounts this) \<and>
   systemStart (fst (toAccountMetas this)) \<le> packedStart (fst (toAccountMetas this)) \<and>
   (Map_size (map_tbl this) = 0 \<longrightarrow>
      packedStart (fst (toAccountMetas this))
        = length (remainingAccounts (fst (toAccountMetas this))) \<and>
      drop (packedStart (fst (toAccountMetas this)))
        (remainingAccounts (fst (toAccountMetas this))) = [])"
  by (simp add: toAccountMetas_def Let_def Map_size_def Map_values_def)

theorem toAccountMetas_offsets_witness:
  "Map_size (map_tbl (PackedAccounts_new\<lparr>preAccounts := [\<lparr>address = ''X'', role = READONLY\<rparr>]\<rparr>)) = 0 \<and>
   packedStart (fst (toAccountMetas
      (PackedAccounts_new\<lparr>preAccounts := [\<lparr>address = ''X'', role = READONLY\<rparr>]\<rparr>)))
     = length (remainingAccounts (fst (toAccountMetas
      (PackedAccounts_new\<lparr>preAccounts := [\<lparr>address = ''X'', role = READONLY\<rparr>]\<rparr>)))) \<and>
   systemStart (fst (toAccountMetas
      (PackedAccounts_new\<lparr>preAccounts := [\<lparr>address = ''X'', role = READONLY\<rparr>]\<rparr>))) = 1"
  using toAccountMetas_offsets
    [of "PackedAccounts_new\<lparr>preAccounts := [\<lparr>address = ''X'', role = READONLY\<rparr>]\<rparr>"]
  by (simp add: PackedAccounts_new_def Map_size_def)

text \<open>
  Claim C5. In every state reachable from \<open>new PackedAccounts()\<close> by calls of the
  public methods, an address present in the index map with index \<open>k\<close> has its recorded
  meta at position \<open>packedStart + k\<close> of the \<open>remainingAccounts\<close> that
  \<open>toAccountMetas\<close> returns, and the assigned indices are exactly
  \<open>0, ..., size - 1\<close>.
\<close>

theorem packed_index_absolute_position:
  assumes "this = calls pdaFn PackedAccounts_new cs"
      and "Map_get (map_tbl this) a = Some (k, meta)"
  shows "packedStart (fst (toAccountMetas this)) + k
           < length (remainingAccounts (fst (toAccountMetas this))) \<and>
         remainingAccounts (fst (toAccountMetas this))
           ! (packedStart (fst (toAccountMetas this)) + k) = meta \<and>
         address meta = a \<and>
         fst ` set (Map_values (map_tbl this)) = {0 ..< Map_size (map_tbl this)}"
proof -
  have inv: "index_inv this" using assms(1) by (simp add: index_inv_reachable)
  note pos = entry_position [OF inv assms(2)]
  have packed: "map snd (sort_key fst (Map_values (map_tbl this)))
                  = map (\<lambda>e. snd (snd e)) (map_tbl this)"
    unfolding packed_of_index_inv [OF inv] by (simp add: Map_values_def)
  have r: "remainingAccounts (fst (toAccountMetas this))
             = (preAccounts this @ systemAccounts this) @ map (\<lambda>e. snd (snd e)) (map_tbl this)"
          "packedStart (fst (toAccountMetas this))
             = length (preAccounts this @ systemAccounts this)"
    using packed by (simp_all add: toAccountMetas_def Let_def)
  have bound: "packedStart (fst (toAccountMetas this)) + k
                 < length (remainingAccounts (fst (toAccountMetas this)))"
    using pos by (simp add: r)
  have found: "remainingAccounts (fst (toAccountMetas this))
                 ! (packedStart (fst (toAccountMetas this)) + k) = meta"
    unfolding r using pos by (simp add: nth_append)
  have "(a, (k, meta)) \<in> set (map_tbl this)"
    using pos by (metis nth_mem)
  then have own: "address meta = a"
    using inv by (auto simp: index_inv_def)
  have "set (map (\<lambda>e. fst (snd e)) (map_tbl this)) = {0 ..< length (map_tbl this)}"
    using inv by (simp add: index_inv_def)
  then have dense: "fst ` set (Map_values (map_tbl this)) = {0 ..< Map_size (map_tbl this)}"
    by (simp add: Map_values_def Map_size_def image_image)
  from bound found own dense show ?thesis by simp
qed

theorem packed_index_absolute_position_witness:
  "Map_get (map_tbl (calls (\<lambda>p seeds. Inr (''pda-'' @ p, 255)) PackedAccounts_new
      [AddPreAccountsSigner ''S'',
       AddSystemAccountsV2 (SystemAccountMetaConfig_new ''A'')
         \<lparr>accountCompressionAuthority = None, accountCompressionProgram = None,
          lightSystemProgram = ''B'', registeredProgramPda = None\<rparr>,
       Insert (InsertOrGet ''P''), Insert (InsertOrGet ''P''),
       Insert (InsertOrGetReadOnly ''Q'')])) ''Q''
     = Some (1, \<lparr>address = ''Q'', role = READONLY\<rparr>) \<and>
   packedStart (fst (toAccountMetas (calls (\<lambda>p seeds. Inr (''pda-'' @ p, 255)) PackedAccounts_new
      [AddPreAccountsSigner ''S'',
       AddSystemAccountsV2 (SystemAccountMetaConfig_new ''A'')
         \<lparr>accountCompressionAuthority = None, accountCompressionProgram = None,
          lightSystemProgram = ''B'', registeredProgramPda = None\<rparr>,
       Insert (InsertOrGet ''P''), Insert (InsertOrGet ''P''),
       Insert (InsertOrGetReadOnly ''Q'')]))) = 7 \<and>
   remainingAccounts (fst (toAccountMetas (calls (\<lambda>p seeds. Inr (''pda-'' @ p, 255)) PackedAccounts_new
      [AddPreAccountsSigner ''S'',
       AddSystemAccountsV2 (SystemAccountMetaConfig_new ''A'')
         \<lparr>accountCompressionAuthority = None, accountCompressionProgram = None,
          lightSystemProgram = ''B'', registeredProgramPda = None\<rparr>,
       Insert (InsertOrGet ''P''), Insert (InsertOrGet ''P''),
       Insert (InsertOrGetReadOnly ''Q'')]))) ! (7 + 1)
     = \<lparr>address = ''Q'', role = READONLY\<rparr>"
proof -
  let ?cs = "[AddPreAccountsSigner ''S'',
       AddSystemAccountsV2 (SystemAccountMetaConfig_new ''A'')
         \<lparr>accountCompressionAuthority = None, accountCompressionProgram = None,
          lightSystemProgram = ''B'', registeredProgramPda = None\<rparr>,
       Insert (InsertOrGet ''P''), Insert (InsertOrGet ''P''),
       Insert (InsertOrGetReadOnly ''Q'')]"
  let ?s = "calls (\<lambda>p seeds. Inr (''pda-'' @ p, 255)) PackedAccounts_new ?cs"
  have state: "?s =
      \<lparr>map_tbl = [(''P'', (0, \<lparr>address = ''P'', role = WRITABLE\<rparr>)),
                  (''Q'', (1, \<lparr>address = ''Q'', role = READONLY\<rparr>))],
       nextIndex = 2,
       preAccounts = [\<lparr>address = ''S'', role = READONLY_SIGNER\<rparr>],
       systemAccounts =
         [\<lparr>address = ''B'', role = READONLY\<rparr>,
          \<lparr>address = ''pda-A'', role = READONLY\<rparr>,
          \<lparr>address = DEFAULT_REGISTERED_PROGRAM_PDA_ADDRESS, role = READONLY\<rparr>,
          \<lparr>address = ''pda-B'', role = READONLY\<rparr>,
          \<lparr>address = DEFAULT_ACCOUNT_COMPRESSION_PROGRAM_ADDRESS, role = READONLY\<rparr>,
          \<lparr>address = DEFAULT_SYSTEM_PROGRAM_ADDRESS, role = READONLY\<rparr>]\<rparr>"
    by (simp add: PackedAccounts_new_def addPreAccountsSigner_def addSystemAccountsV2_def
          getLightSystemAccountMetasV2_def deriveAccountCompressionAuthority_def
          SystemAccountMetaConfig_new_def push_if_truthy_def insertOrGet_def
          insertOrGetReadOnly_def insertOrGetConfig_def Map_get_def Map_set_def role_of_def
          Let_def)
  have present: "Map_get (map_tbl ?s) ''Q'' = Some (1, \<lparr>address = ''Q'', role = READONLY\<rparr>)"
    unfolding state by (simp add: Map_get_def)
  have start: "packedStart (fst (toAccountMetas ?s)) = 7"
    unfolding state by (simp add: toAccountMetas_def Let_def)
  from packed_index_absolute_position [OF refl present] present start
  show ?thesis by simp
qed

section \<open>Reading the list changes nothing\<close>

text \<open>
  Claim C8. \<open>toAccountMetas\<close> never mutates the \<open>PackedAccounts\<close>: the index map,
  \<open>nextIndex\<close>, \<open>preAccounts\<close> and \<open>systemAccounts\<close> are as before the call, and a
  second call right after the first returns the same result.
\<close>

theorem toAccountMetas_leaves_state:
  "snd (toAccountMetas this) = this \<and>
   map_tbl (snd (toAccountMetas this)) = map_tbl this \<and>
   nextIndex (snd (toAccountMetas this)) = nextIndex this \<and>
   preAccounts (snd (toAccountMetas this)) = preAccounts this \<and>
   systemAccounts (snd (toAccountMetas this)) = systemAccounts this \<and>
   fst (toAccountMetas (snd (toAccountMetas this))) = fst (toAccountMetas this)"
  by (simp add: toAccountMetas_def Let_def)

section \<open>The two shorthands\<close>

text \<open>
  Claim C9. For every address and every state, \<open>insertOrGetReadOnly a\<close> returns the
  index and leaves the state that \<open>insertOrGetConfig a false false\<close> does, and
  \<open>insertOrGet a\<close> those of \<open>insertOrGetConfig a false true\<close>: the defaults are
  not a signer and writable, and the roles recorded on a first insertion are read-only
  and writable.
\<close>

theorem insertOrGet_shorthands:
  "insertOrGetReadOnly this a = insertOrGetConfig this a False False \<and>
   insertOrGet this a = insertOrGetConfig this a False True \<and>
   role_of False False = READONLY \<and> role_of False True = WRITABLE"
  by (simp add: insertOrGetReadOnly_def insertOrGet_def role_of_def)

section \<open>The blockhash of a built transaction\<close>

text \<open>
  Claim C10. When both \<open>latestBlockhash\<close> and \<open>rpc\<close> are absent,
  \<open>buildAndSignTransaction\<close> throws the error
  \<open>latestBlockhash is required when rpc is not provided.\<close> before any message is
  created or signed. When \<open>latestBlockhash\<close> is provided, the rpc is never asked,
  whether present or not, and the message that is signed carries the provided
  blockhash as its lifetime.
\<close>

theorem buildAndSignTransaction_blockhash:
  "(latestBlockhash input = None \<and> rpc input = None \<longrightarrow>
      buildAndSignTransaction sign input
        = ([], Inl (Error ''latestBlockhash is required when rpc is not provided.''))) \<and>
   (latestBlockhash input = Some c \<longrightarrow>
      buildAndSignTransaction sign input
        = ([CreateMessage (case version input of None \<Rightarrow> V0 | Some v \<Rightarrow> v),
            SignMessage
              \<lparr>tm_version = (case version input of None \<Rightarrow> V0 | Some v \<Rightarrow> v),
               tm_feePayer = Some (feePayer input),
               tm_lifetimeConstraint = Some c,
               tm_instructions = instructions input\<rparr>],
           sign \<lparr>tm_version = (case version input of None \<Rightarrow> V0 | Some v \<Rightarrow> v),
                 tm_feePayer = Some (feePayer input),
                 tm_lifetimeConstraint = Some c,
                 tm_instructions = instructions input\<rparr>) \<and>
      RpcGetLatestBlockhash \<notin> set (fst (buildAndSignTransaction sign input)))"
  by (simp add: buildAndSignTransaction_def Let_def createTransactionMessage_def
        setTransactionMessageFeePayerSigner_def setTransactionMessageLifetimeUsingBlockhash_def
        appendTransactionMessageInstructions_def)

theorem buildAndSignTransaction_blockhash_witness:
  "buildAndSignTransaction (\<lambda>m. Inr ''signed'')
     \<lparr>feePayer = ''payer'',
      instructions = [\<lparr>accounts = None, data = Some [1], programAddress = ''11111111111111111111111111111111''\<rparr>],
      latestBlockhash = None, rpc = None, version = None\<rparr>
     = ([], Inl (Error ''latestBlockhash is required when rpc is not provided.'')
              :: error + string) \<and>
   fst (buildAndSignTransaction (\<lambda>m. Inr ''signed'' :: error + string)
     \<lparr>feePayer = ''payer'',
      instructions = [\<lparr>accounts = None, data = Some [1], programAddress = ''11111111111111111111111111111111''\<rparr>],
      latestBlockhash = Some \<lparr>blockhash = ''h'', lastValidBlockHeight = 1\<rparr>,
      rpc = Some (Inr (WithValue \<lparr>blockhash = ''other'', lastValidBlockHeight = 2\<rparr>)),
      version = None\<rparr>)
     = [CreateMessage V0,
        SignMessage
          \<lparr>tm_version = V0, tm_feePayer = Some ''payer'',
           tm_lifetimeConstraint = Some \<lparr>blockhash = ''h'', lastValidBlockHeight = 1\<rparr>,
           tm_instructions = [\<lparr>accounts = None, data = Some [1],
                               programAddress = ''11111111111111111111111111111111''\<rparr>]\<rparr>]"
  using buildAndSignTransaction_blockhash
          [where input = "\<lparr>feePayer = ''payer'',
                 instructions = [\<lparr>accounts = None, data = Some [1],
                                  programAddress = ''11111111111111111111111111111111''\<rparr>],
                 latestBlockhash = None, rpc = None, version = None\<rparr>"
             and sign = "\<lambda>m. Inr ''signed'' :: error + string"]
        buildAndSignTransaction_blockhash
          [where input = "\<lparr>feePayer = ''payer'',
                 instructions = [\<lparr>accounts = None, data = Some [1],
                                  programAddress = ''11111111111111111111111111111111''\<rparr>],
                 latestBlockhash = Some \<lparr>blockhash = ''h'', lastValidBlockHeight = 1\<rparr>,
                 rpc = Some (Inr (WithValue \<lparr>blockhash = ''other'', lastValidBlockHeight = 2\<rparr>)),
                 version = None\<rparr>"
             and c = "\<lparr>blockhash = ''h'', lastValidBlockHeight = 1\<rparr>"
             and sign = "\<lambda>m. Inr ''signed'' :: error + string"]
  by simp

end
